theory Spec2Isabelle
  imports Complex_Main "HOL-Library.Char_ord" "HOL-Library.List_Lexorder"
begin

section \<open>Landsraad bot: the house registry, the sector map and the weekly schedule\<close>

text \<open>
  A shallow embedding of \<^verbatim>\<open>landsraad_bot_enhanced.py\<close>. The SQLite database is a record
  of tables, each table a list of rows in rowid order. Every function that reads the clock
  (\<^verbatim>\<open>CURRENT_TIMESTAMP\<close>, \<^verbatim>\<open>datetime.now(PST)\<close>) takes the value read as a
  parameter. A handler returns the database it leaves behind together with the reply it
  sends; the calls to Discord that send the reply are taken to succeed. Strings are ASCII;
  the case mappings and the white space below are Python's and SQLite's on ASCII. A row
  read from the houses table has all its fourteen columns, so the length tests of the
  source on the row are true and their defaults are never taken.
\<close>

subsection \<open>Strings\<close>

definition is_upper_char :: "char \<Rightarrow> bool" where
  "is_upper_char c = (65 \<le> (of_char c :: nat) \<and> (of_char c :: nat) \<le> 90)"

definition is_lower_char :: "char \<Rightarrow> bool" where
  "is_lower_char c = (97 \<le> (of_char c :: nat) \<and> (of_char c :: nat) \<le> 122)"

definition lower_char :: "char \<Rightarrow> char" where
  "lower_char c = (if is_upper_char c then char_of ((of_char c :: nat) + 32) else c)"

definition upper_char :: "char \<Rightarrow> char" where
  "upper_char c = (if is_lower_char c then char_of ((of_char c :: nat) - 32) else c)"

text \<open>\<^verbatim>\<open>str.lower()\<close>, \<^verbatim>\<open>str.upper()\<close> and SQL \<^verbatim>\<open>LOWER(...)\<close>.\<close>

definition lower :: "string \<Rightarrow> string" where
  "lower s = map lower_char s"

definition upper :: "string \<Rightarrow> string" where
  "upper s = map upper_char s"

text \<open>White space as \<^verbatim>\<open>str.strip()\<close> and \<^verbatim>\<open>int()\<close> see it: tab, line feed, vertical tab,
  form feed, carriage return, the four separators 28 to 31, and the space.\<close>

definition is_space :: "char \<Rightarrow> bool" where
  "is_space c = ((of_char c :: nat) \<in> {9, 10, 11, 12, 13, 28, 29, 30, 31, 32})"

definition strip :: "string \<Rightarrow> string" where
  "strip s = rev (dropWhile is_space (rev (dropWhile is_space s)))"

definition is_digit :: "char \<Rightarrow> bool" where
  "is_digit c = (48 \<le> (of_char c :: nat) \<and> (of_char c :: nat) \<le> 57)"

definition digit_val :: "char \<Rightarrow> int" where
  "digit_val c = int (of_char c) - 48"

text \<open>The digits of a decimal literal after the first one: a single underscore may stand
  between two digits.\<close>

fun int_digits :: "string \<Rightarrow> int \<Rightarrow> int option" where
  "int_digits [] acc = Some acc"
| "int_digits (c # cs) acc =
     (if is_digit c then int_digits cs (10 * acc + digit_val c)
      else if c = CHR ''_'' then
        (case cs of
           [] \<Rightarrow> None
         | d # ds \<Rightarrow> if is_digit d then int_digits ds (10 * acc + digit_val d) else None)
      else None)"

definition int_unsigned :: "string \<Rightarrow> int option" where
  "int_unsigned s =
     (case s of
        [] \<Rightarrow> None
      | c # cs \<Rightarrow> if is_digit c then int_digits cs (digit_val c) else None)"

text \<open>\<^verbatim>\<open>int(s)\<close> on a string: \<open>None\<close> is the \<^verbatim>\<open>ValueError\<close>.\<close>

definition py_int :: "string \<Rightarrow> int option" where
  "py_int s =
     (case strip s of
        [] \<Rightarrow> None
      | c # cs \<Rightarrow>
          if c = CHR ''-'' then map_option uminus (int_unsigned cs)
          else if c = CHR ''+'' then int_unsigned cs
          else int_unsigned (c # cs))"

subsection \<open>The database\<close>

type_synonym timestamp = int

record house =
  house_id :: int
  name :: string
  quest :: string
  current_goal :: int
  goal :: int
  points_per_delivery :: int
  is_locked :: bool
  completed_by :: "string option"
  house_notes :: "string option"
  desert_location :: "string option"
  alliance :: "string option"
  deep_desert_cp :: int
  last_updated :: timestamp
  updated_by :: string

record reset_log_row =
  reset_id :: int
  reset_date :: timestamp
  reset_by :: string
  houses_reset :: int
  houses_completed :: int

record sector =
  sector_id :: string
  row_letter :: string
  col_number :: int
  survey_status :: string
  last_surveyed :: "timestamp option"
  surveyed_by :: "string option"
  sector_notes :: "string option"

text \<open>The four tables of points of interest are written only by \<^verbatim>\<open>INSERT\<close> statements that
  name their columns, so a row is kept as the statement builds it: columns with values.\<close>

datatype sql_value = Null | Integer int | Text string

type_synonym sql_row = "(string \<times> sql_value) list"

record poi_table =
  poi_rows :: "sql_row list"
  poi_seq :: int

record database =
  houses :: "house list"
  houses_seq :: int
  reset_log :: "reset_log_row list"
  reset_log_seq :: int
  deep_desert_sectors :: "sector list"
  guild_bases :: poi_table
  spice_locations :: poi_table
  landsraad_points :: poi_table
  resource_locations :: poi_table

definition ATREIDES :: string where
  "ATREIDES = ''Atreides''"

definition HARKONNEN :: string where
  "HARKONNEN = ''Harkonnen''"

subsection \<open>Reading and updating a house\<close>

text \<open>\<^verbatim>\<open>WHERE LOWER(name) = LOWER(?)\<close>\<close>

definition name_matches :: "string \<Rightarrow> house \<Rightarrow> bool" where
  "name_matches house_name h = (lower (name h) = lower house_name)"

text \<open>\<^verbatim>\<open>cursor.fetchone()\<close> of the select: the first matching row, or \<open>None\<close>.\<close>

definition get_house_data :: "string \<Rightarrow> database \<Rightarrow> house option" where
  "get_house_data house_name db = find (name_matches house_name) (houses db)"

text \<open>\<^verbatim>\<open>cursor.rowcount > 0\<close> after an update restricted to the matching rows.\<close>

definition rows_matched :: "string \<Rightarrow> database \<Rightarrow> bool" where
  "rows_matched house_name db = (filter (name_matches house_name) (houses db) \<noteq> [])"

definition claim_house_for_alliance ::
  "string \<Rightarrow> string option \<Rightarrow> string \<Rightarrow> timestamp \<Rightarrow> database \<Rightarrow> database \<times> bool" where
  "claim_house_for_alliance house_name alliance' claimed_by now db =
     (db\<lparr>houses :=
          map (\<lambda>h. if name_matches house_name h
                   then h\<lparr>alliance := alliance', last_updated := now, updated_by := claimed_by\<rparr>
                   else h)
              (houses db)\<rparr>,
      rows_matched house_name db)"

text \<open>\<^verbatim>\<open>update_house_data(house_name, field, value, updated_by)\<close>: the pair of the field
  name and the value written is one value of \<open>field_update\<close>; every field name outside
  \<^verbatim>\<open>allowed_fields\<close> is \<open>Set_other\<close>.\<close>

datatype field_update =
    Set_quest string
  | Set_current_goal int
  | Set_points_per_delivery int
  | Set_is_locked bool
  | Set_completed_by "string option"
  | Set_notes "string option"
  | Set_desert_location "string option"
  | Set_alliance "string option"
  | Set_deep_desert_cp int
  | Set_other string

fun allowed_field :: "field_update \<Rightarrow> bool" where
  "allowed_field (Set_other f) = False"
| "allowed_field u = True"

fun set_field :: "field_update \<Rightarrow> house \<Rightarrow> house" where
  "set_field (Set_quest v) h = h\<lparr>quest := v\<rparr>"
| "set_field (Set_current_goal v) h = h\<lparr>current_goal := v\<rparr>"
| "set_field (Set_points_per_delivery v) h = h\<lparr>points_per_delivery := v\<rparr>"
| "set_field (Set_is_locked v) h = h\<lparr>is_locked := v\<rparr>"
| "set_field (Set_completed_by v) h = h\<lparr>completed_by := v\<rparr>"
| "set_field (Set_notes v) h = h\<lparr>house_notes := v\<rparr>"
| "set_field (Set_desert_location v) h = h\<lparr>desert_location := v\<rparr>"
| "set_field (Set_alliance v) h = h\<lparr>alliance := v\<rparr>"
| "set_field (Set_deep_desert_cp v) h = h\<lparr>deep_desert_cp := v\<rparr>"
| "set_field (Set_other f) h = h"

definition update_house_data ::
  "string \<Rightarrow> field_update \<Rightarrow> string \<Rightarrow> timestamp \<Rightarrow> database \<Rightarrow> database \<times> bool" where
  "update_house_data house_name field updated_by' now db =
     (if \<not> allowed_field field then (db, False)
      else
        (db\<lparr>houses :=
             map (\<lambda>h. if name_matches house_name h
                      then (set_field field h)\<lparr>last_updated := now, updated_by := updated_by'\<rparr>
                      else h)
                 (houses db)\<rparr>,
         rows_matched house_name db))"

subsection \<open>The roster\<close>

text \<open>The local list \<^verbatim>\<open>houses\<close> of \<^verbatim>\<open>populate_initial_houses\<close>.\<close>

definition houses_roster :: "string list" where
  "houses_roster =
     [''Alexin'', ''Argosaz'', ''Dyvets'', ''Ecaz'', ''Hagal'', ''Hurata'',
      ''Imota'', ''Kenola'', ''Lindaren'', ''Maros'', ''Mikarrol'', ''Moritani'', ''Mutelli'',
      ''Novebruns'', ''Richese'', ''Sor'', ''Spinnette'', ''Taligari'', ''Thorvald'',
      ''Tseida'', ''Varota'', ''Vernius'', ''Wallach'', ''Wayku'', ''Wydras'']"

text \<open>The rowid an \<^verbatim>\<open>AUTOINCREMENT\<close> table draws: one more than the largest rowid the table
  has ever held.\<close>

definition next_rowid :: "int \<Rightarrow> int list \<Rightarrow> int" where
  "next_rowid seq ids = max seq (fold max ids 0) + 1"

text \<open>A row of \<^verbatim>\<open>houses\<close> made of the column defaults of \<^verbatim>\<open>CREATE TABLE houses\<close>.\<close>

definition default_house :: "int \<Rightarrow> string \<Rightarrow> timestamp \<Rightarrow> house" where
  "default_house rid nm now =
     \<lparr>house_id = rid, name = nm, quest = ''Unknown'', current_goal = 0, goal = 70000,
      points_per_delivery = 1, is_locked = True, completed_by = None, house_notes = None,
      desert_location = None, alliance = None, deep_desert_cp = 0, last_updated = now,
      updated_by = ''System''\<rparr>"

text \<open>\<^verbatim>\<open>INSERT OR IGNORE INTO houses (name) VALUES (?)\<close>: the name column is \<^verbatim>\<open>UNIQUE\<close>
  (compared byte by byte), so the statement does nothing to the table when the name is there.
  SQLite draws the rowid before it checks the constraint, so the counter advances in both
  cases.\<close>

definition insert_or_ignore_house :: "timestamp \<Rightarrow> string \<Rightarrow> database \<Rightarrow> database" where
  "insert_or_ignore_house now nm db =
     (let rid = next_rowid (houses_seq db) (map house_id (houses db))
      in if nm \<in> set (map name (houses db)) then db\<lparr>houses_seq := rid\<rparr>
         else db\<lparr>houses := houses db @ [default_house rid nm now], houses_seq := rid\<rparr>)"

text \<open>\<^verbatim>\<open>populate_initial_houses()\<close>; \<open>clock nm\<close> is the time at the insert of \<open>nm\<close>.\<close>

definition populate_initial_houses :: "(string \<Rightarrow> timestamp) \<Rightarrow> database \<Rightarrow> database" where
  "populate_initial_houses clock db =
     fold (\<lambda>house d. insert_or_ignore_house (clock house) house d) houses_roster
       (db\<lparr>houses := filter (\<lambda>h. name h \<in> set houses_roster) (houses db)\<rparr>)"

text \<open>A sequence of calls, one clock for each.\<close>

definition populate_repeatedly :: "(string \<Rightarrow> timestamp) list \<Rightarrow> database \<Rightarrow> database" where
  "populate_repeatedly clocks db = fold populate_initial_houses clocks db"

subsection \<open>The weekly reset\<close>



subsection \<open>The house detail view\<close>

datatype error = ValueError | ZeroDivisionError | OverflowError | OperationalError
  | IntegrityError | TypeError

text \<open>Python's truth value of an optional text: \<^verbatim>\<open>None\<close> and the empty string are false.\<close>

definition truthy :: "string option \<Rightarrow> bool" where
  "truthy v = (case v of None \<Rightarrow> False | Some s \<Rightarrow> s \<noteq> [])"


text \<open>\<^verbatim>\<open>int(x)\<close> on a number: rounding towards zero.\<close>

definition trunc :: "rat \<Rightarrow> int" where
  "trunc q = (if 0 \<le> q then \<lfloor>q\<rfloor> else \<lceil>q\<rceil>)"

text \<open>The progress bar is kept as what it prints: the number of filled cells, the number of
  empty cells, and the percentage (printed with one decimal).\<close>

record progress_bar =
  filled_cells :: nat
  empty_cells :: nat
  bar_percentage :: rat

definition create_progress_bar :: "int \<Rightarrow> int \<Rightarrow> progress_bar" where
  "create_progress_bar current max_val =
     (if max_val \<le> 0 then \<lparr>filled_cells = 0, empty_cells = 20, bar_percentage = 0\<rparr>
      else
        (let percentage = min 100 ((of_int current / of_int max_val) * 100);
             filled = trunc (percentage / 5);
             empty = 20 - filled
         in \<lparr>filled_cells = nat filled, empty_cells = nat empty,
             bar_percentage = percentage\<rparr>))"

datatype status_text = Locked | Claimed_by string | In_prog rat

datatype turns = Turns int | Infinite

datatype deliveries_text = Claimed_before_completion int | PPD_turns int turns

text \<open>\<^verbatim>\<open>max(1, -(-max(0, goal - current) // ppd)) if ppd > 0 else "\<infinity>"\<close>\<close>

definition turns_needed :: "int \<Rightarrow> int \<Rightarrow> int \<Rightarrow> turns" where
  "turns_needed current goal' ppd =
     (if ppd > 0 then Turns (max 1 (- ((- max 0 (goal' - current)) div ppd))) else Infinite)"

record house_info_embed =
  embed_status :: status_text
  embed_quest :: string
  embed_remaining :: int
  embed_deliveries :: deliveries_text
  embed_alliance :: string
  embed_deep_desert_cp :: int
  embed_progress_bar :: progress_bar

text \<open>\<^verbatim>\<open>create_house_info_embed(house_name, house_data)\<close>, on a row of all fourteen columns.\<close>

definition create_house_info_embed :: "house \<Rightarrow> house_info_embed" where
  "create_house_info_embed house_data =
     (let current = current_goal house_data;
          goal' = goal house_data;
          ppd = points_per_delivery house_data;
          alliance' = alliance house_data;
          progress_pct = (if goal' > 0 then (of_int current / of_int goal') * 100 else 0)
      in \<lparr>embed_status =
             (if is_locked house_data then Locked
              else if truthy alliance' then Claimed_by (the alliance')
              else In_prog progress_pct),
           embed_quest = (if quest house_data \<noteq> [] then quest house_data else ''Not set''),
           embed_remaining = max 0 (goal' - current),
           embed_deliveries =
             (if truthy alliance' \<and> current < goal' then Claimed_before_completion ppd
              else PPD_turns ppd (turns_needed current goal' ppd)),
           embed_alliance = (if truthy alliance' then the alliance' else ''Unclaimed''),
           embed_deep_desert_cp = deep_desert_cp house_data,
           embed_progress_bar = create_progress_bar current goal'\<rparr>)"

subsection \<open>The export\<close>




text \<open>\<^verbatim>\<open>SELECT * FROM houses ORDER BY name\<close>\<close>

definition get_all_houses :: "database \<Rightarrow> house list" where
  "get_all_houses db = sort_key name (houses db)"



subsection \<open>Unlocking and claiming\<close>

datatype reply =
    House_unlocked house_info_embed
  | Invalid_points_per_delivery
  | An_error_occurred error
  | Invalid_faction
  | House_not_found
  | House_claimed string int int
  | Failed_to_claim
  | Claimed_message string house_info_embed
  | Unclaimed_message house_info_embed
  | Failed_to_unclaim
  | Cleared_alliance
  | Set_alliance_to string
  | Invalid_alliance
  | Raised error

text \<open>\<^verbatim>\<open>UnlockHouseModal.on_submit\<close>. The three updates take the times \<open>t1\<close>, \<open>t2\<close>, \<open>t3\<close>.
  When no row has the name, \<^verbatim>\<open>get_house_data\<close> returns \<^verbatim>\<open>None\<close> and building the embed
  raises a \<^verbatim>\<open>TypeError\<close>, which the last handler reports.\<close>

definition UnlockHouseModal_on_submit ::
  "string \<Rightarrow> string \<Rightarrow> string \<Rightarrow> string \<Rightarrow> timestamp \<Rightarrow> timestamp \<Rightarrow> timestamp \<Rightarrow>
   database \<Rightarrow> database \<times> reply" where
  "UnlockHouseModal_on_submit house_name quest_input ppd_input user t1 t2 t3 db =
     (case py_int (strip ppd_input) of
        None \<Rightarrow> (db, Invalid_points_per_delivery)
      | Some ppd \<Rightarrow>
          (let db1 = fst (update_house_data house_name (Set_is_locked False) user t1 db);
               db2 = fst (update_house_data house_name (Set_quest (strip quest_input)) user t2 db1);
               db3 = fst (update_house_data house_name (Set_points_per_delivery ppd) user t3 db2)
           in case get_house_data house_name db3 of
                None \<Rightarrow> (db3, An_error_occurred TypeError)
              | Some house_data \<Rightarrow> (db3, House_unlocked (create_house_info_embed house_data))))"

text \<open>The three claim buttons of \<^verbatim>\<open>HouseActionView\<close> differ in the alliance they pass.\<close>

definition claim_callback ::
  "string option \<Rightarrow> string \<Rightarrow> string \<Rightarrow> timestamp \<Rightarrow> database \<Rightarrow> database \<times> reply" where
  "claim_callback alliance' house_name user now db =
     (let (db', success) = claim_house_for_alliance house_name alliance' user now db
      in if success then
           (case get_house_data house_name db' of
              None \<Rightarrow> (db', Raised TypeError)
            | Some house_data \<Rightarrow>
                (db', case alliance' of
                        None \<Rightarrow> Unclaimed_message (create_house_info_embed house_data)
                      | Some a \<Rightarrow> Claimed_message a (create_house_info_embed house_data)))
         else (db', case alliance' of None \<Rightarrow> Failed_to_unclaim | Some a \<Rightarrow> Failed_to_claim))"

definition claim_atreides_callback ::
  "string \<Rightarrow> string \<Rightarrow> timestamp \<Rightarrow> database \<Rightarrow> database \<times> reply" where
  "claim_atreides_callback = claim_callback (Some ATREIDES)"

definition claim_harkonnen_callback ::
  "string \<Rightarrow> string \<Rightarrow> timestamp \<Rightarrow> database \<Rightarrow> database \<times> reply" where
  "claim_harkonnen_callback = claim_callback (Some HARKONNEN)"

definition unclaim_house_callback ::
  "string \<Rightarrow> string \<Rightarrow> timestamp \<Rightarrow> database \<Rightarrow> database \<times> reply" where
  "unclaim_house_callback = claim_callback None"

text \<open>\<^verbatim>\<open>/claim_house house faction\<close>\<close>

definition slash_claim_house ::
  "string \<Rightarrow> string \<Rightarrow> string \<Rightarrow> timestamp \<Rightarrow> database \<Rightarrow> database \<times> reply" where
  "slash_claim_house house' faction user now db =
     (let faction' = lower (strip faction)
      in if faction' \<notin> set [''atreides'', ''harkonnen'', ''a'', ''h''] then (db, Invalid_faction)
         else
           (case get_house_data house' db of
              None \<Rightarrow> (db, House_not_found)
            | Some house_data \<Rightarrow>
                (let alliance' = (if faction' \<in> set [''atreides'', ''a''] then ATREIDES
                                  else HARKONNEN);
                     (db', success) =
                       claim_house_for_alliance house' (Some alliance') user now db
                 in if success
                    then (db', House_claimed alliance' (current_goal house_data) (goal house_data))
                    else (db', Failed_to_claim))))"

text \<open>\<^verbatim>\<open>/set_alliance house alliance\<close>\<close>

definition slash_set_alliance ::
  "string \<Rightarrow> string \<Rightarrow> string \<Rightarrow> timestamp \<Rightarrow> database \<Rightarrow> database \<times> reply" where
  "slash_set_alliance house' alliance_input user now db =
     (case get_house_data house' db of
        None \<Rightarrow> (db, House_not_found)
      | Some house_data \<Rightarrow>
          (let alliance' = lower (strip alliance_input)
           in if alliance' \<in> set [''none'', ''null'', ''clear'', []] then
                (fst (update_house_data house' (Set_alliance None) user now db),
                 Cleared_alliance)
              else if alliance' \<in> set [''atreides'', ''a''] then
                (fst (update_house_data house' (Set_alliance (Some ATREIDES)) user now db),
                 Set_alliance_to ATREIDES)
              else if alliance' \<in> set [''harkonnen'', ''h''] then
                (fst (update_house_data house' (Set_alliance (Some HARKONNEN)) user now db),
                 Set_alliance_to HARKONNEN)
              else (db, Invalid_alliance)))"

subsection \<open>The sector map\<close>

text \<open>A column of a table of points of interest: its name, its default, and whether it is
  declared \<^verbatim>\<open>NOT NULL\<close>. The lists below are the \<^verbatim>\<open>CREATE TABLE\<close> statements of
  \<^verbatim>\<open>init_database_locations\<close>.\<close>

datatype col_default = Default_null | Default_integer int | Default_current_timestamp

type_synonym column = "string \<times> col_default \<times> bool"

definition guild_bases_columns :: "column list" where
  "guild_bases_columns =
     [(''id'', Default_null, False), (''guild_name'', Default_null, True),
      (''sector_id'', Default_null, True), (''coordinates'', Default_null, False),
      (''base_type'', Default_null, False), (''alliance'', Default_null, False),
      (''discovered_date'', Default_current_timestamp, False),
      (''discovered_by'', Default_null, False), (''is_active'', Default_integer 1, False),
      (''notes'', Default_null, False)]"

definition spice_locations_columns :: "column list" where
  "spice_locations_columns =
     [(''id'', Default_null, False), (''sector_id'', Default_null, True),
      (''spice_type'', Default_null, True), (''size'', Default_null, False),
      (''coordinates'', Default_null, False),
      (''discovered_date'', Default_current_timestamp, False),
      (''discovered_by'', Default_null, False), (''last_verified'', Default_null, False),
      (''is_depleted'', Default_integer 0, False), (''estimated_yield'', Default_null, False),
      (''notes'', Default_null, False)]"

definition landsraad_points_columns :: "column list" where
  "landsraad_points_columns =
     [(''id'', Default_null, False), (''sector_id'', Default_null, True),
      (''point_name'', Default_null, False), (''current_controller'', Default_null, False),
      (''coordinates'', Default_null, False), (''tier'', Default_integer 1, False),
      (''last_captured'', Default_null, False), (''captured_by'', Default_null, False),
      (''defense_rating'', Default_null, False), (''notes'', Default_null, False)]"

definition resource_locations_columns :: "column list" where
  "resource_locations_columns =
     [(''id'', Default_null, False), (''sector_id'', Default_null, True),
      (''resource_type'', Default_null, True), (''concentration'', Default_null, False),
      (''coordinates'', Default_null, False),
      (''discovered_date'', Default_current_timestamp, False),
      (''discovered_by'', Default_null, False), (''last_verified'', Default_null, False),
      (''is_exhausted'', Default_integer 0, False),
      (''extraction_difficulty'', Default_null, False), (''notes'', Default_null, False)]"

fun default_value :: "timestamp \<Rightarrow> col_default \<Rightarrow> sql_value" where
  "default_value now Default_null = Null"
| "default_value now (Default_integer i) = Integer i"
| "default_value now Default_current_timestamp = Integer now"

definition poi_ids :: "poi_table \<Rightarrow> int list" where
  "poi_ids t = map (\<lambda>r. case map_of r ''id'' of Some (Integer i) \<Rightarrow> i | _ \<Rightarrow> 0) (poi_rows t)"

text \<open>\<^verbatim>\<open>INSERT INTO t (c1, ..., cn) VALUES (v1, ..., vn)\<close> on a table with the given columns,
  none of the statements naming the \<^verbatim>\<open>id\<close>. A column the table does not have is an
  \<^verbatim>\<open>sqlite3.OperationalError\<close>; a null in a \<^verbatim>\<open>NOT NULL\<close> column is an
  \<^verbatim>\<open>sqlite3.IntegrityError\<close>.\<close>

definition sql_insert ::
  "column list \<Rightarrow> timestamp \<Rightarrow> sql_row \<Rightarrow> poi_table \<Rightarrow> error + poi_table" where
  "sql_insert columns now given t =
     (if list_ex (\<lambda>c. c \<notin> set (map fst columns)) (map fst given) then Inl OperationalError
      else
        (let rid = next_rowid (poi_seq t) (poi_ids t);
             row = map (\<lambda>(c, d, nn).
                          (c, if c = ''id'' then Integer rid
                              else (case map_of given c of
                                      Some v \<Rightarrow> v
                                    | None \<Rightarrow> default_value now d)))
                       columns
         in if list_ex (\<lambda>(c, d, nn). nn \<and> map_of row c = Some Null) columns
            then Inl IntegrityError
            else Inr (t\<lparr>poi_rows := poi_rows t @ [row], poi_seq := rid\<rparr>)))"

text \<open>\<^verbatim>\<open>value if value else None\<close> on the text of an input field.\<close>

definition text_or_null :: "string \<Rightarrow> sql_value" where
  "text_or_null s = (if s \<noteq> [] then Text s else Null)"

datatype location_reply =
    Invalid_sector_id
  | Invalid_location_type
  | Location_added string string string
  | Location_raised error

text \<open>\<^verbatim>\<open>AddGuildBaseModal.on_submit\<close>\<close>

definition AddGuildBaseModal_on_submit ::
  "string \<Rightarrow> string \<Rightarrow> string \<Rightarrow> string \<Rightarrow> string \<Rightarrow> string \<Rightarrow> string \<Rightarrow> timestamp \<Rightarrow>
   database \<Rightarrow> database \<times> location_reply" where
  "AddGuildBaseModal_on_submit sector guild_name base_type alliance_input coordinates
       notes_input user now db =
     (case sql_insert guild_bases_columns now
             [(''guild_name'', Text guild_name), (''sector_id'', Text sector),
              (''base_type'', Text (lower base_type)),
              (''alliance'', text_or_null alliance_input),
              (''coordinates'', text_or_null coordinates),
              (''discovered_by'', Text user), (''notes'', text_or_null notes_input)]
             (guild_bases db) of
        Inl e \<Rightarrow> (db, Location_raised e)
      | Inr t \<Rightarrow> (db\<lparr>guild_bases := t\<rparr>, Location_added ''base'' guild_name sector))"

text \<open>\<^verbatim>\<open>AddSpiceModal.on_submit\<close>\<close>

definition AddSpiceModal_on_submit ::
  "string \<Rightarrow> string \<Rightarrow> string \<Rightarrow> string \<Rightarrow> string \<Rightarrow> string \<Rightarrow> timestamp \<Rightarrow>
   database \<Rightarrow> database \<times> location_reply" where
  "AddSpiceModal_on_submit sector size_input estimated_yield_input coordinates notes_input
       user now db =
     (let estimated_yield =
            (if estimated_yield_input \<noteq> [] then
               (case py_int estimated_yield_input of
                  Some i \<Rightarrow> Integer i
                | None \<Rightarrow> Null)
             else Null)
      in case sql_insert spice_locations_columns now
                [(''sector_id'', Text sector), (''spice_type'', Text ''field''),
                 (''size'', Text (lower size_input)), (''estimated_yield'', estimated_yield),
                 (''coordinates'', text_or_null coordinates),
                 (''discovered_by'', Text user), (''notes'', text_or_null notes_input)]
                (spice_locations db) of
           Inl e \<Rightarrow> (db, Location_raised e)
         | Inr t \<Rightarrow> (db\<lparr>spice_locations := t\<rparr>, Location_added ''spice'' size_input sector))"

text \<open>\<^verbatim>\<open>max(lo, min(hi, int(text)))\<close> when the text is given and is a number, else
  \<^verbatim>\<open>None\<close>.\<close>

definition clamped_input :: "int \<Rightarrow> int \<Rightarrow> string \<Rightarrow> sql_value" where
  "clamped_input lo hi s =
     (if s \<noteq> [] then
        (case py_int s of Some i \<Rightarrow> Integer (max lo (min hi i)) | None \<Rightarrow> Null)
      else Null)"

text \<open>\<^verbatim>\<open>AddLandsraadModal.on_submit\<close>\<close>

definition AddLandsraadModal_on_submit ::
  "string \<Rightarrow> string \<Rightarrow> string \<Rightarrow> string \<Rightarrow> string \<Rightarrow> string \<Rightarrow> string \<Rightarrow> timestamp \<Rightarrow>
   database \<Rightarrow> database \<times> location_reply" where
  "AddLandsraadModal_on_submit sector point_name controller tier_input defense_input
       notes_input user now db =
     (let tier = clamped_input 1 3 tier_input;
          defense = clamped_input 1 10 defense_input
      in case sql_insert landsraad_points_columns now
                [(''sector_id'', Text sector), (''point_name'', Text point_name),
                 (''coordinates'', text_or_null controller), (''tier'', tier),
                 (''defense_rating'', defense), (''captured_by'', Text user),
                 (''notes'', text_or_null notes_input)]
                (landsraad_points db) of
           Inl e \<Rightarrow> (db, Location_raised e)
         | Inr t \<Rightarrow>
             (db\<lparr>landsraad_points := t\<rparr>, Location_added ''landsraad'' point_name sector))"

text \<open>\<^verbatim>\<open>AddResourceModal.on_submit\<close>\<close>

definition AddResourceModal_on_submit ::
  "string \<Rightarrow> string \<Rightarrow> string \<Rightarrow> string \<Rightarrow> string \<Rightarrow> string \<Rightarrow> timestamp \<Rightarrow>
   database \<Rightarrow> database \<times> location_reply" where
  "AddResourceModal_on_submit sector resource_type concentration coordinates notes_input
       user now db =
     (case sql_insert resource_locations_columns now
             [(''sector_id'', Text sector), (''resource_type'', Text (lower resource_type)),
              (''concentration'', Text (lower concentration)),
              (''extraction_difficulty'', Null),
              (''coordinates'', text_or_null coordinates),
              (''discovered_by'', Text user), (''notes'', text_or_null notes_input)]
             (resource_locations db) of
        Inl e \<Rightarrow> (db, Location_raised e)
      | Inr t \<Rightarrow>
          (db\<lparr>resource_locations := t\<rparr>, Location_added ''resource'' resource_type sector))"

text \<open>The test of \<^verbatim>\<open>slash_quickadd\<close> on the sector: two characters, a row letter and a
  column digit.\<close>

definition valid_sector_id :: "string \<Rightarrow> bool" where
  "valid_sector_id s =
     (case s of
        [r, c] \<Rightarrow> r \<in> set ''ABCDEFGHI'' \<and> c \<in> set ''123456789''
      | _ \<Rightarrow> False)"

text \<open>The insert of \<^verbatim>\<open>slash_quickadd\<close>, one statement for each location type.\<close>

definition quickadd_insert ::
  "string \<Rightarrow> string \<Rightarrow> string \<Rightarrow> string \<Rightarrow> timestamp \<Rightarrow> database \<Rightarrow> error + database" where
  "quickadd_insert location_type sector nm user now db =
     (if location_type = ''base'' then
        map_sum id (\<lambda>t. db\<lparr>guild_bases := t\<rparr>)
          (sql_insert guild_bases_columns now
             [(''guild_name'', Text nm), (''sector_id'', Text sector),
              (''base_type'', Text ''unknown''), (''discovered_by'', Text user)]
             (guild_bases db))
      else if location_type = ''spice'' then
        map_sum id (\<lambda>t. db\<lparr>spice_locations := t\<rparr>)
          (sql_insert spice_locations_columns now
             [(''sector_id'', Text sector), (''spice_type'', Text ''unknown''),
              (''size'', Text ''unknown''), (''discovered_by'', Text user),
              (''notes'', Text nm)]
             (spice_locations db))
      else if location_type = ''landsraad'' then
        map_sum id (\<lambda>t. db\<lparr>landsraad_points := t\<rparr>)
          (sql_insert landsraad_points_columns now
             [(''sector_id'', Text sector), (''point_name'', Text nm),
              (''discovered_by'', Text user)]
             (landsraad_points db))
      else
        map_sum id (\<lambda>t. db\<lparr>resource_locations := t\<rparr>)
          (sql_insert resource_locations_columns now
             [(''sector_id'', Text sector), (''resource_type'', Text nm),
              (''concentration'', Text ''unknown''), (''discovered_by'', Text user)]
             (resource_locations db)))"

text \<open>The update of \<^verbatim>\<open>slash_quickadd\<close> on the sector's survey status.\<close>

definition advance_survey_status :: "string \<Rightarrow> database \<Rightarrow> database" where
  "advance_survey_status sector db =
     db\<lparr>deep_desert_sectors :=
          map (\<lambda>s. if sector_id s = sector
                   then s\<lparr>survey_status :=
                            (if survey_status s = ''unsurveyed'' then ''partial''
                             else survey_status s)\<rparr>
                   else s)
              (deep_desert_sectors db)\<rparr>"

text \<open>\<^verbatim>\<open>/quickadd sector location_type name\<close>. An exception of the insert leaves the
  handler before the commit, so nothing is written.\<close>

definition slash_quickadd ::
  "string \<Rightarrow> string \<Rightarrow> string \<Rightarrow> string \<Rightarrow> timestamp \<Rightarrow> database \<Rightarrow>
   database \<times> location_reply" where
  "slash_quickadd sector location_type nm user now db =
     (let sector' = upper sector; location_type' = lower location_type
      in if \<not> valid_sector_id sector' then (db, Invalid_sector_id)
         else if location_type' \<notin> set [''base'', ''spice'', ''landsraad'', ''resource'']
         then (db, Invalid_location_type)
         else
           (case quickadd_insert location_type' sector' nm user now db of
              Inl e \<Rightarrow> (db, Location_raised e)
            | Inr db' \<Rightarrow>
                (advance_survey_status sector' db',
                 Location_added location_type' nm sector')))"

text \<open>The survey status of a sector, as \<^verbatim>\<open>create_sector_button\<close> reads it.\<close>

definition sector_status :: "string \<Rightarrow> database \<Rightarrow> string" where
  "sector_status sector db =
     (case find (\<lambda>s. sector_id s = sector) (deep_desert_sectors db) of
        Some s \<Rightarrow> survey_status s
      | None \<Rightarrow> ''unsurveyed'')"

subsection \<open>The weekly schedule\<close>

text \<open>A \<^verbatim>\<open>datetime\<close> in the zone of the clock that was read: the day as its proleptic
  Gregorian ordinal (day 1 is Monday, 1 January of year 1) and the time of day. Python adds
  a \<^verbatim>\<open>timedelta\<close> and compares two values of one zone on these fields alone.\<close>

record datetime =
  ordinal :: int
  hour :: int
  minute :: int
  second :: int
  microsecond :: int

definition max_ordinal :: int where
  "max_ordinal = 3652059"

definition weekday :: "datetime \<Rightarrow> int" where
  "weekday d = (ordinal d + 6) mod 7"

text \<open>\<^verbatim>\<open>d.replace(hour=h, minute=m, second=0, microsecond=0)\<close>\<close>

definition replace_time :: "datetime \<Rightarrow> int \<Rightarrow> int \<Rightarrow> error + datetime" where
  "replace_time d h m =
     (if 0 \<le> h \<and> h < 24 \<and> 0 \<le> m \<and> m < 60
      then Inr (d\<lparr>hour := h, minute := m, second := 0, microsecond := 0\<rparr>)
      else Inl ValueError)"

text \<open>\<^verbatim>\<open>d + timedelta(days=n)\<close> and \<^verbatim>\<open>d + timedelta(hours=n)\<close>\<close>

definition add_days :: "datetime \<Rightarrow> int \<Rightarrow> error + datetime" where
  "add_days d n =
     (let o' = ordinal d + n
      in if 1 \<le> o' \<and> o' \<le> max_ordinal then Inr (d\<lparr>ordinal := o'\<rparr>) else Inl OverflowError)"

definition add_hours :: "datetime \<Rightarrow> int \<Rightarrow> error + datetime" where
  "add_hours d n =
     (let total = hour d + n; o' = ordinal d + total div 24
      in if 1 \<le> o' \<and> o' \<le> max_ordinal
         then Inr (d\<lparr>ordinal := o', hour := total mod 24\<rparr>)
         else Inl OverflowError)"

text \<open>\<^verbatim>\<open>a >= b\<close> on two values of one zone.\<close>

definition datetime_ge :: "datetime \<Rightarrow> datetime \<Rightarrow> bool" where
  "datetime_ge a b =
     (ordinal b < ordinal a \<or> ordinal b = ordinal a \<and>
       (hour b < hour a \<or> hour b = hour a \<and>
         (minute b < minute a \<or> minute b = minute a \<and>
           (second b < second a \<or> second b = second a \<and>
             microsecond b \<le> microsecond a))))"

text \<open>\<^verbatim>\<open>get_next_weekday(target_weekday, target_hour, target_minute)\<close>, with \<open>now\<close> the
  value of \<^verbatim>\<open>datetime.now(PST)\<close>.\<close>

definition target_after :: "datetime \<Rightarrow> int \<Rightarrow> int \<Rightarrow> int \<Rightarrow> error + datetime" where
  "target_after now days_ahead target_hour target_minute =
     (case add_days now days_ahead of
        Inl e \<Rightarrow> Inl e
      | Inr target_date \<Rightarrow> replace_time target_date target_hour target_minute)"

definition get_next_weekday :: "datetime \<Rightarrow> int \<Rightarrow> int \<Rightarrow> int \<Rightarrow> error + datetime" where
  "get_next_weekday now target_weekday target_hour target_minute =
     (let days_ahead = target_weekday - weekday now
      in if days_ahead < 0 then target_after now (days_ahead + 7) target_hour target_minute
         else if days_ahead = 0 then
           (case replace_time now target_hour target_minute of
              Inl e \<Rightarrow> Inl e
            | Inr target_time \<Rightarrow>
                if datetime_ge now target_time
                then target_after now 7 target_hour target_minute
                else target_after now days_ahead target_hour target_minute)
         else target_after now days_ahead target_hour target_minute)"

record events =
  coriolis_start :: datetime
  coriolis_end :: datetime
  landsraad_new_term :: datetime
  voting_start :: datetime
  voting_end :: datetime

text \<open>\<^verbatim>\<open>calculate_schedule_events()\<close>; the clock is read once in each of the two calls of
  \<^verbatim>\<open>get_next_weekday\<close>.\<close>

definition calculate_schedule_events :: "datetime \<Rightarrow> datetime \<Rightarrow> error + events" where
  "calculate_schedule_events now1 now2 =
     (case get_next_weekday now1 0 17 0 of
        Inl e \<Rightarrow> Inl e
      | Inr coriolis_start' \<Rightarrow>
          (case add_hours coriolis_start' 10 of
             Inl e \<Rightarrow> Inl e
           | Inr coriolis_end' \<Rightarrow>
               (case get_next_weekday now2 5 18 0 of
                  Inl e \<Rightarrow> Inl e
                | Inr voting_start' \<Rightarrow>
                    (case add_hours voting_start' 24 of
                       Inl e \<Rightarrow> Inl e
                     | Inr voting_end' \<Rightarrow>
                         Inr \<lparr>coriolis_start = coriolis_start', coriolis_end = coriolis_end',
                              landsraad_new_term = coriolis_end',
                              voting_start = voting_start', voting_end = voting_end'\<rparr>))))"

subsection \<open>The summary of the control panel\<close>

text \<open>The test of \<^verbatim>\<open>create_master_embed\<close> for a claimed house:
  \<^verbatim>\<open>alliance is not None and alliance in [ATREIDES, HARKONNEN]\<close>.\<close>

definition counts_as_claimed :: "house \<Rightarrow> bool" where
  "counts_as_claimed h =
     (case alliance h of None \<Rightarrow> False | Some a \<Rightarrow> a \<in> set [ATREIDES, HARKONNEN])"

record summary =
  unlocked :: nat
  claimed :: nat
  atreides_count :: nat
  harkonnen_count :: nat

text \<open>The four counters of \<^verbatim>\<open>create_master_embed\<close>.\<close>

definition summary_statistics :: "database \<Rightarrow> summary" where
  "summary_statistics db =
     (let hs = get_all_houses db
      in \<lparr>unlocked = length (filter (\<lambda>h. \<not> is_locked h) hs),
          claimed = length (filter counts_as_claimed hs),
          atreides_count = length (filter (\<lambda>h. alliance h = Some ATREIDES) hs),
          harkonnen_count = length (filter (\<lambda>h. alliance h = Some HARKONNEN) hs)\<rparr>)"

subsection \<open>A concrete database\<close>

text \<open>One unlocked house half way to its goal, with a completion mark and an alliance value
  outside the two alliances, and one sector nobody has surveyed.\<close>

definition example_house :: house where
  "example_house =
     \<lparr>house_id = 1, name = ''Alexin'', quest = ''Deliver spice'', current_goal = 35000,
      goal = 70000, points_per_delivery = 23, is_locked = False,
      completed_by = Some ''Atreides'', house_notes = None, desert_location = Some ''B4'',
      alliance = Some ''Bob'', deep_desert_cp = 3, last_updated = 100,
      updated_by = ''paul''\<rparr>"

definition empty_table :: poi_table where
  "empty_table = \<lparr>poi_rows = [], poi_seq = 0\<rparr>"

definition example_sector :: sector where
  "example_sector =
     \<lparr>sector_id = ''A1'', row_letter = ''A'', col_number = 1, survey_status = ''unsurveyed'',
      last_surveyed = None, surveyed_by = None, sector_notes = None\<rparr>"

definition example_db :: database where
  "example_db =
     \<lparr>houses = [example_house], houses_seq = 1, reset_log = [], reset_log_seq = 0,
      deep_desert_sectors = [example_sector],
      guild_bases = empty_table, spice_locations = empty_table,
      landsraad_points = empty_table, resource_locations = empty_table\<rparr>"

text \<open>The same database with the house claimed for Atreides.\<close>

definition claimed_db :: database where
  "claimed_db = example_db\<lparr>houses := [example_house\<lparr>alliance := Some ATREIDES\<rparr>]\<rparr>"

text \<open>The same database with the house locked, as the weekly reset leaves it.\<close>

definition locked_db :: database where
  "locked_db = example_db\<lparr>houses := [example_house\<lparr>is_locked := True, alliance := None\<rparr>]\<rparr>"


text \<open>Wednesday 4 November 2026, 10:00, and Monday 2 November 2026, 17:00.\<close>

definition wednesday_morning :: datetime where
  "wednesday_morning =
     \<lparr>ordinal = 739924, hour = 10, minute = 0, second = 0, microsecond = 0\<rparr>"

definition monday_five_pm :: datetime where
  "monday_five_pm = \<lparr>ordinal = 739922, hour = 17, minute = 0, second = 0, microsecond = 0\<rparr>"

text \<open>A houses table with two rows outside the roster around the row of Alexin: a house
  named Harkonnen and a lower-case alexin.\<close>

definition messy_db :: database where
  "messy_db =
     example_db\<lparr>houses :=
       [example_house\<lparr>house_id := 3, name := ''Harkonnen''\<rparr>, example_house,
        example_house\<lparr>house_id := 2, name := ''alexin''\<rparr>],
       houses_seq := 3\<rparr>"

section \<open>Claiming a house\<close>

text \<open>
  C3. \<^verbatim>\<open>claim_house_for_alliance\<close>, for every database, house name, alliance argument
  (a name or null), actor and time: every row keeps its completion mark and every field
  other than the alliance and the two stamps; a row whose name matches gets the alliance
  passed, any other row is left as it was; no other table changes. After claiming for
  Atreides, then for Harkonnen, then with null, a matching row has no alliance and every
  row has the completion mark it had at the start.
\<close>

theorem claim_house_for_alliance_frame:
  "list_all2
     (\<lambda>h h'. completed_by h' = completed_by h
        \<and> h'\<lparr>alliance := alliance h, last_updated := last_updated h,
              updated_by := updated_by h\<rparr> = h
        \<and> (name_matches house_name h \<longrightarrow> alliance h' = a)
        \<and> (\<not> name_matches house_name h \<longrightarrow> h' = h))
     (houses db) (houses (fst (claim_house_for_alliance house_name a user now db)))
   \<and> (fst (claim_house_for_alliance house_name a user now db))\<lparr>houses := houses db\<rparr> = db
   \<and> list_all2
       (\<lambda>h h'. completed_by h' = completed_by h
          \<and> (name_matches house_name h \<longrightarrow> alliance h' = None))
       (houses db)
       (houses (fst (claim_house_for_alliance house_name None u3 t3
          (fst (claim_house_for_alliance house_name (Some HARKONNEN) u2 t2
             (fst (claim_house_for_alliance house_name (Some ATREIDES) u1 t1 db)))))))"
  by (simp add: claim_house_for_alliance_def list_all2_map2 list_all2_same name_matches_def)

theorem claim_house_for_alliance_frame_witness:
  "name_matches ''alexin'' example_house
   \<and> houses (fst (claim_house_for_alliance ''alexin'' None ''chani'' 3
        (fst (claim_house_for_alliance ''alexin'' (Some HARKONNEN) ''feyd'' 2
           (fst (claim_house_for_alliance ''alexin'' (Some ATREIDES) ''paul'' 1
              example_db))))))
     = [example_house\<lparr>alliance := None, last_updated := 3, updated_by := ''chani''\<rparr>]
   \<and> list_all2
       (\<lambda>h h'. completed_by h' = completed_by h
          \<and> (name_matches ''alexin'' h \<longrightarrow> alliance h' = None))
       (houses example_db)
       (houses (fst (claim_house_for_alliance ''alexin'' None ''chani'' 3
          (fst (claim_house_for_alliance ''alexin'' (Some HARKONNEN) ''feyd'' 2
             (fst (claim_house_for_alliance ''alexin'' (Some ATREIDES) ''paul'' 1
                example_db)))))))"
proof -
  have m: "name_matches ''alexin'' example_house"
    by code_simp
  have e: "houses (fst (claim_house_for_alliance ''alexin'' None ''chani'' 3
        (fst (claim_house_for_alliance ''alexin'' (Some HARKONNEN) ''feyd'' 2
           (fst (claim_house_for_alliance ''alexin'' (Some ATREIDES) ''paul'' 1
              example_db))))))
     = [example_house\<lparr>alliance := None, last_updated := 3, updated_by := ''chani''\<rparr>]"
    by code_simp
  show ?thesis
    using m e
      claim_house_for_alliance_frame [where house_name = "''alexin''" and db = example_db
        and a = None and user = "''chani''" and now = 3 and ?u3.0 = "''chani''" and ?t3.0 = 3
        and ?u2.0 = "''feyd''" and ?t2.0 = 2 and ?u1.0 = "''paul''" and ?t1.0 = 1]
    by blast
qed

section \<open>The roster of houses\<close>

lemma distinct_houses_roster: "distinct houses_roster"
  by (simp add: houses_roster_def)

lemma length_houses_roster: "length houses_roster = 25"
  by (simp add: houses_roster_def)

lemma name_default_house: "name (default_house rid n t) = n"
  by (simp add: default_house_def)

lemma houses_insert_or_ignore:
  "houses (insert_or_ignore_house t n d)
     = (if n \<in> set (map name (houses d)) then houses d
        else houses d @ [default_house (next_rowid (houses_seq d) (map house_id (houses d))) n t])"
  by (simp add: insert_or_ignore_house_def Let_def)

lemma fold_insert_or_ignore:
  "distinct ns \<Longrightarrow>
   \<exists>new. houses (fold (\<lambda>house d. insert_or_ignore_house (clock house) house d) ns d)
            = houses d @ new
      \<and> map name new = filter (\<lambda>n. n \<notin> set (map name (houses d))) ns
      \<and> list_all (\<lambda>h. \<exists>rid. h = default_house rid (name h) (clock (name h))) new"
proof (induction ns arbitrary: d)
  case Nil
  then show ?case by simp
next
  case (Cons n ns)
  let ?d1 = "insert_or_ignore_house (clock n) n d"
  from Cons.prems have dn: "distinct ns" and nn: "n \<notin> set ns"
    by simp_all
  from Cons.IH [OF dn, of ?d1] obtain new where new:
    "houses (fold (\<lambda>house d. insert_or_ignore_house (clock house) house d) ns ?d1)
       = houses ?d1 @ new"
    "map name new = filter (\<lambda>n. n \<notin> set (map name (houses ?d1))) ns"
    "list_all (\<lambda>h. \<exists>rid. h = default_house rid (name h) (clock (name h))) new"
    by blast
  show ?case
  proof (cases "n \<in> set (map name (houses d))")
    case True
    with new show ?thesis
      by (auto simp: houses_insert_or_ignore)
  next
    case False
    let ?h = "default_house (next_rowid (houses_seq d) (map house_id (houses d))) n (clock n)"
    have f: "filter (\<lambda>m. m \<notin> set (map name (houses ?d1))) ns
        = filter (\<lambda>m. m \<notin> set (map name (houses d))) ns"
      using False nn by (auto simp: houses_insert_or_ignore name_default_house intro: filter_cong)
    have "houses (fold (\<lambda>house d. insert_or_ignore_house (clock house) house d) (n # ns) d)
        = houses d @ (?h # new)"
      using new(1) False by (simp add: houses_insert_or_ignore)
    moreover have "map name (?h # new)
        = filter (\<lambda>m. m \<notin> set (map name (houses d))) (n # ns)"
      using new(2) f False by (simp add: name_default_house)
    moreover have "list_all (\<lambda>h. \<exists>rid. h = default_house rid (name h) (clock (name h)))
        (?h # new)"
      using new(3) by (auto simp: name_default_house)
    ultimately show ?thesis
      by blast
  qed
qed

lemma populate_rows:
  "\<exists>new. houses (populate_initial_houses clock db)
            = filter (\<lambda>h. name h \<in> set houses_roster) (houses db) @ new
      \<and> map name new = filter (\<lambda>n. n \<notin> set (map name (houses db))) houses_roster
      \<and> list_all (\<lambda>h. \<exists>rid. h = default_house rid (name h) (clock (name h))) new"
proof -
  let ?d0 = "db\<lparr>houses := filter (\<lambda>h. name h \<in> set houses_roster) (houses db)\<rparr>"
  have "filter (\<lambda>n. n \<notin> set (map name (houses ?d0))) houses_roster
      = filter (\<lambda>n. n \<notin> set (map name (houses db))) houses_roster"
    by (rule filter_cong) auto
  with fold_insert_or_ignore [OF distinct_houses_roster, of clock ?d0] show ?thesis
    by (simp add: populate_initial_houses_def)
qed

lemma populate_names:
  assumes "distinct (map name (houses db))"
  shows "set (map name (houses (populate_initial_houses clock db))) = set houses_roster"
    and "distinct (map name (houses (populate_initial_houses clock db)))"
    and "length (houses (populate_initial_houses clock db)) = 25"
proof -
  obtain new where new:
    "houses (populate_initial_houses clock db)
       = filter (\<lambda>h. name h \<in> set houses_roster) (houses db) @ new"
    "map name new = filter (\<lambda>n. n \<notin> set (map name (houses db))) houses_roster"
    using populate_rows [of clock db] by blast
  show s: "set (map name (houses (populate_initial_houses clock db))) = set houses_roster"
    using new by auto
  have "distinct (map name (filter (\<lambda>h. name h \<in> set houses_roster) (houses db)))"
    using assms by (simp add: distinct_map_filter)
  then show d: "distinct (map name (houses (populate_initial_houses clock db)))"
    using new distinct_houses_roster by auto
  have "length (map name (houses (populate_initial_houses clock db)))
      = card (set (map name (houses (populate_initial_houses clock db))))"
    using d by (simp only: distinct_card)
  also have "\<dots> = card (set houses_roster)"
    by (simp only: s)
  also have "\<dots> = 25"
    using distinct_houses_roster length_houses_roster by (simp add: distinct_card)
  finally show "length (houses (populate_initial_houses clock db)) = 25"
    by simp
qed

lemma populate_complete:
  assumes "set (map name (houses db)) = set houses_roster"
  shows "houses (populate_initial_houses clock db) = houses db"
proof -
  obtain new where new:
    "houses (populate_initial_houses clock db)
       = filter (\<lambda>h. name h \<in> set houses_roster) (houses db) @ new"
    "map name new = filter (\<lambda>n. n \<notin> set (map name (houses db))) houses_roster"
    using populate_rows [of clock db] by blast
  have "filter (\<lambda>n. n \<notin> set (map name (houses db))) houses_roster = []"
    using assms by (simp add: filter_empty_conv)
  with new(2) have "new = []"
    by simp
  moreover have "filter (\<lambda>h. name h \<in> set houses_roster) (houses db) = houses db"
    using assms by (auto simp: filter_id_conv)
  ultimately show ?thesis
    using new(1) by simp
qed

lemma populate_repeatedly_complete:
  "set (map name (houses db)) = set houses_roster
   \<Longrightarrow> houses (populate_repeatedly clocks db) = houses db"
proof (induction clocks arbitrary: db)
  case Nil
  then show ?case by (simp add: populate_repeatedly_def)
next
  case (Cons c cs)
  have h: "houses (populate_initial_houses c db) = houses db"
    using Cons.prems by (rule populate_complete)
  then have "set (map name (houses (populate_initial_houses c db))) = set houses_roster"
    using Cons.prems by simp
  from Cons.IH [OF this] h show ?case
    by (simp add: populate_repeatedly_def)
qed

text \<open>
  C4. Let the names of the houses table be distinct, as the \<^verbatim>\<open>UNIQUE\<close> column has them. After
  one call of \<^verbatim>\<open>populate_initial_houses\<close> or more, the names of the table are exactly the
  25 names of the roster, each once; the table is made of the rows of the starting table
  whose name is in the roster, unchanged and in their order, followed by one row of column
  defaults for each roster name the starting table did not have; every other row of the
  starting table is gone; and one more call leaves the table as it is.
\<close>

theorem populate_exactly_the_roster:
  assumes "distinct (map name (houses db))"
  shows
    "set (map name (houses (populate_repeatedly (c # cs) db))) = set houses_roster
     \<and> distinct (map name (houses (populate_repeatedly (c # cs) db)))
     \<and> length (houses (populate_repeatedly (c # cs) db)) = 25
     \<and> (\<exists>new. houses (populate_repeatedly (c # cs) db)
                 = filter (\<lambda>h. name h \<in> set houses_roster) (houses db) @ new
           \<and> map name new = filter (\<lambda>n. n \<notin> set (map name (houses db))) houses_roster
           \<and> list_all (\<lambda>h. \<exists>rid. h = default_house rid (name h) (c (name h))) new)
     \<and> houses (populate_initial_houses c' (populate_repeatedly (c # cs) db))
         = houses (populate_repeatedly (c # cs) db)"
proof -
  let ?d = "populate_initial_houses c db"
  have s: "set (map name (houses ?d)) = set houses_roster"
    using assms by (rule populate_names(1))
  have r: "houses (populate_repeatedly (c # cs) db) = houses ?d"
    using populate_repeatedly_complete [OF s, of cs] by (simp add: populate_repeatedly_def)
  have i: "houses (populate_initial_houses c' (populate_repeatedly (c # cs) db))
      = houses (populate_repeatedly (c # cs) db)"
    using s r by (simp add: populate_complete)
  show ?thesis
    using s r i populate_names(2,3) [OF assms, of c] populate_rows [of c db]
    by simp
qed

theorem populate_exactly_the_roster_witness:
  "distinct (map name (houses messy_db))
   \<and> map name (houses messy_db) = [''Harkonnen'', ''Alexin'', ''alexin'']
   \<and> length (houses (populate_repeatedly [\<lambda>n. 7, \<lambda>n. 8] messy_db)) = 25
   \<and> map name (houses (populate_repeatedly [\<lambda>n. 7, \<lambda>n. 8] messy_db)) = houses_roster
   \<and> hd (houses (populate_repeatedly [\<lambda>n. 7, \<lambda>n. 8] messy_db)) = example_house"
proof -
  have d: "distinct (map name (houses messy_db))"
    by code_simp
  have n: "map name (houses messy_db) = [''Harkonnen'', ''Alexin'', ''alexin'']"
    by code_simp
  have m: "map name (houses (populate_repeatedly [\<lambda>n. 7, \<lambda>n. 8] messy_db)) = houses_roster"
    by code_simp
  have h: "hd (houses (populate_repeatedly [\<lambda>n. 7, \<lambda>n. 8] messy_db)) = example_house"
    by code_simp
  show ?thesis
    using d n m h
      populate_exactly_the_roster [OF d, where c = "\<lambda>n. 7" and cs = "[\<lambda>n. 8]"]
    by blast
qed

section \<open>The weekly reset\<close>




section \<open>Unlocking a house\<close>

text \<open>
  C5, as the code has it. \<^verbatim>\<open>UnlockHouseModal.on_submit\<close>, for every database, house name,
  quest text, points-per-delivery text, actor and times: when the text is not an integer
  literal the handler reports the invalid value and leaves the database as it was; when it
  is the literal of an integer, of any sign, every row whose name matches ends unlocked,
  with the stripped quest text and with that integer as its points per delivery, and every
  other row is left as it was.
\<close>

theorem unlock_on_submit_checks_number_only:
  "(py_int (strip ppd_input) = None \<longrightarrow>
      UnlockHouseModal_on_submit house_name quest_input ppd_input user t1 t2 t3 db
        = (db, Invalid_points_per_delivery))
   \<and> (py_int (strip ppd_input) = Some ppd \<longrightarrow>
      list_all2
        (\<lambda>h h'. (name_matches house_name h \<longrightarrow>
                    \<not> is_locked h' \<and> quest h' = strip quest_input
                    \<and> points_per_delivery h' = ppd)
           \<and> (\<not> name_matches house_name h \<longrightarrow> h' = h))
        (houses db)
        (houses (fst (UnlockHouseModal_on_submit house_name quest_input ppd_input user
           t1 t2 t3 db))))"
  by (auto simp: UnlockHouseModal_on_submit_def update_house_data_def Let_def
      list_all2_map2 list_all2_same name_matches_def split: option.splits)

theorem unlock_on_submit_checks_number_only_witness:
  "py_int (strip ''x23'') = None
   \<and> UnlockHouseModal_on_submit ''alexin'' ''Kill worms'' ''x23'' ''paul'' 1 2 3 locked_db
       = (locked_db, Invalid_points_per_delivery)
   \<and> py_int (strip '' 23 '') = Some 23
   \<and> name_matches ''alexin'' (hd (houses locked_db))
   \<and> list_all2
        (\<lambda>h h'. (name_matches ''alexin'' h \<longrightarrow>
                    \<not> is_locked h' \<and> quest h' = strip '' Kill worms ''
                    \<and> points_per_delivery h' = 23)
           \<and> (\<not> name_matches ''alexin'' h \<longrightarrow> h' = h))
        (houses locked_db)
        (houses (fst (UnlockHouseModal_on_submit ''alexin'' '' Kill worms '' '' 23 '' ''paul''
           1 2 3 locked_db)))"
proof -
  have a: "py_int (strip ''x23'') = None"
    by code_simp
  have b: "py_int (strip '' 23 '') = Some 23"
    by code_simp
  have c: "name_matches ''alexin'' (hd (houses locked_db))"
    by code_simp
  show ?thesis
    using a b c
      unlock_on_submit_checks_number_only [where ppd_input = "''x23''"
        and house_name = "''alexin''" and quest_input = "''Kill worms''" and user = "''paul''"
        and ?t1.0 = 1 and ?t2.0 = 2 and ?t3.0 = 3 and db = locked_db]
      unlock_on_submit_checks_number_only [where ppd_input = "'' 23 ''" and ppd = 23
        and house_name = "''alexin''" and quest_input = "'' Kill worms ''"
        and user = "''paul''" and ?t1.0 = 1 and ?t2.0 = 2 and ?t3.0 = 3 and db = locked_db]
    by blast
qed

text \<open>
  C5, as the claim states it, fails at the texts "0" and "-5": neither is a positive
  integer, and the house is unlocked with that number as its points per delivery.
\<close>

theorem unlock_accepts_nonpositive_counterexample:
  "houses (fst (UnlockHouseModal_on_submit ''Alexin'' ''Kill worms'' ''0'' ''paul'' 1 2 3
      locked_db))
     = [example_house\<lparr>is_locked := False, alliance := None, quest := ''Kill worms'',
          points_per_delivery := 0, last_updated := 3, updated_by := ''paul''\<rparr>]
   \<and> houses (fst (UnlockHouseModal_on_submit ''Alexin'' ''Kill worms'' ''-5'' ''paul'' 1 2 3
      locked_db))
     = [example_house\<lparr>is_locked := False, alliance := None, quest := ''Kill worms'',
          points_per_delivery := - 5, last_updated := 3, updated_by := ''paul''\<rparr>]
   \<and> is_locked (hd (houses locked_db))"
  by code_simp

section \<open>Turns remaining\<close>

text \<open>
  C6, as the code has it. For every house: when the house has an alliance and its progress
  is below its goal, the detail view shows "Claimed before completion" and no number of
  turns; otherwise it shows \<^verbatim>\<open>turns_needed\<close>, which for positive points per delivery is the
  larger of 1 and the ceiling of \<open>max 0 (goal - progress)\<close> over the points per delivery,
  and is the infinity sign when the points per delivery are not positive.
\<close>

theorem turns_needed_at_least_one:
  "(0 < ppd \<longrightarrow>
      turns_needed current g ppd
        = Turns (max 1 \<lceil>(of_int (max 0 (g - current)) :: rat) / of_int ppd\<rceil>))
   \<and> (ppd \<le> 0 \<longrightarrow> turns_needed current g ppd = Infinite)
   \<and> embed_deliveries (create_house_info_embed h)
       = (if truthy (alliance h) \<and> current_goal h < goal h
          then Claimed_before_completion (points_per_delivery h)
          else PPD_turns (points_per_delivery h)
                 (turns_needed (current_goal h) (goal h) (points_per_delivery h)))"
  by (simp add: turns_needed_def create_house_info_embed_def Let_def ceiling_divide_eq_div)

theorem turns_needed_at_least_one_witness:
  "(0::int) < 23 \<and> turns_needed 69900 70000 23 = Turns 5
   \<and> \<lceil>(of_int (max 0 (70000 - 69900)) :: rat) / of_int 23\<rceil> = 5
   \<and> (0::int) \<le> 0 \<and> turns_needed 69900 70000 0 = Infinite"
proof -
  have c: "\<lceil>(of_int (max 0 (70000 - 69900)) :: rat) / of_int 23\<rceil> = 5"
    by code_simp
  show ?thesis
    using c turns_needed_at_least_one [where ppd = 23 and current = 69900 and g = 70000]
      turns_needed_at_least_one [where ppd = 0 and current = 69900 and g = 70000]
    by simp
qed

text \<open>
  C6, as the claim states it, fails when nothing remains: the view shows 1 turn, where the
  ceiling is 0.
\<close>

theorem turns_needed_zero_remaining_counterexample:
  "turns_needed 70000 70000 23 = Turns 1
   \<and> \<lceil>(of_int (max 0 (70000 - 70000)) :: rat) / of_int 23\<rceil> = 0
   \<and> embed_deliveries
        (create_house_info_embed (example_house\<lparr>current_goal := 70000, alliance := None\<rparr>))
       = PPD_turns 23 (Turns 1)"
  by (simp add: turns_needed_def create_house_info_embed_def Let_def example_house_def
      truthy_def)

section \<open>The percentage\<close>


section \<open>The alliance vocabulary\<close>

text \<open>
  C10. For every database, house name, argument text, actor and time, each of
  \<^verbatim>\<open>/claim_house\<close>, \<^verbatim>\<open>/set_alliance\<close> and the three claim buttons leaves every row either
  as it was or with an alliance that is null, Atreides or Harkonnen; so when every alliance
  of the database is null, Atreides or Harkonnen before the action, it is so afterwards.
  A faction text that, stripped and lowered, is none of atreides, harkonnen, a, h makes
  \<^verbatim>\<open>/claim_house\<close> answer with the invalid-faction error and leave the database as it was;
  an alliance text that is none of the accepted words makes \<^verbatim>\<open>/set_alliance\<close> answer with
  an error and leave the database as it was.
\<close>

theorem alliance_vocabulary_preserved:
  assumes "list_all (\<lambda>h. alliance h \<in> {None, Some ATREIDES, Some HARKONNEN}) (houses db)"
  shows
    "list_all (\<lambda>h. alliance h \<in> {None, Some ATREIDES, Some HARKONNEN})
       (houses (fst (slash_claim_house house' faction user now db)))
     \<and> list_all (\<lambda>h. alliance h \<in> {None, Some ATREIDES, Some HARKONNEN})
         (houses (fst (slash_set_alliance house' alliance_input user now db)))
     \<and> list_all (\<lambda>h. alliance h \<in> {None, Some ATREIDES, Some HARKONNEN})
         (houses (fst (claim_atreides_callback house' user now db)))
     \<and> list_all (\<lambda>h. alliance h \<in> {None, Some ATREIDES, Some HARKONNEN})
         (houses (fst (claim_harkonnen_callback house' user now db)))
     \<and> list_all (\<lambda>h. alliance h \<in> {None, Some ATREIDES, Some HARKONNEN})
         (houses (fst (unclaim_house_callback house' user now db)))
     \<and> (lower (strip faction) \<notin> set [''atreides'', ''harkonnen'', ''a'', ''h'']
          \<longrightarrow> slash_claim_house house' faction user now db = (db, Invalid_faction))
     \<and> (lower (strip alliance_input)
            \<notin> set [''none'', ''null'', ''clear'', [], ''atreides'', ''a'', ''harkonnen'', ''h'']
          \<longrightarrow> fst (slash_set_alliance house' alliance_input user now db) = db
              \<and> snd (slash_set_alliance house' alliance_input user now db)
                  \<in> {Invalid_alliance, House_not_found})"
proof -
  let ?ok = "\<lambda>h. alliance h \<in> {None, Some ATREIDES, Some HARKONNEN}"
  have claim: "list_all ?ok (houses (fst (claim_house_for_alliance n a u t db)))"
    if "a \<in> {None, Some ATREIDES, Some HARKONNEN}" for n a u t
    using assms that by (auto simp: claim_house_for_alliance_def list_all_iff)
  have upd: "list_all ?ok (houses (fst (update_house_data n (Set_alliance a) u t db)))"
    if "a \<in> {None, Some ATREIDES, Some HARKONNEN}" for n a u t
    using assms that by (auto simp: update_house_data_def list_all_iff)
  have cb: "list_all ?ok (houses (fst (claim_callback a n u t db)))"
    if "a \<in> {None, Some ATREIDES, Some HARKONNEN}" for n a u t
    using claim [OF that, of n u t]
    by (auto simp: claim_callback_def split: prod.splits option.splits)
  have c1: "list_all ?ok (houses (fst (slash_claim_house house' faction user now db)))"
    using assms claim [of "Some ATREIDES" house' user now]
      claim [of "Some HARKONNEN" house' user now]
    by (auto simp: slash_claim_house_def Let_def split: option.splits prod.splits)
  have c2: "list_all ?ok (houses (fst (slash_set_alliance house' alliance_input user now db)))"
    using assms upd [of None house' user now] upd [of "Some ATREIDES" house' user now]
      upd [of "Some HARKONNEN" house' user now]
    by (simp add: slash_set_alliance_def Let_def split: option.splits)
  have c3: "slash_claim_house house' faction user now db = (db, Invalid_faction)"
    if "lower (strip faction) \<notin> set [''atreides'', ''harkonnen'', ''a'', ''h'']"
    using that by (simp add: slash_claim_house_def Let_def)
  have c4: "fst (slash_set_alliance house' alliance_input user now db) = db
      \<and> snd (slash_set_alliance house' alliance_input user now db)
          \<in> {Invalid_alliance, House_not_found}"
    if "lower (strip alliance_input)
          \<notin> set [''none'', ''null'', ''clear'', [], ''atreides'', ''a'', ''harkonnen'', ''h'']"
    using that by (simp add: slash_set_alliance_def Let_def split: option.splits)
  show ?thesis
    using c1 c2 c3 c4 cb [of "Some ATREIDES" house' user now]
      cb [of "Some HARKONNEN" house' user now] cb [of None house' user now]
    by (simp add: claim_atreides_callback_def claim_harkonnen_callback_def
        unclaim_house_callback_def)
qed

theorem alliance_vocabulary_preserved_witness:
  "list_all (\<lambda>h. alliance h \<in> {None, Some ATREIDES, Some HARKONNEN}) (houses claimed_db)
   \<and> map alliance (houses (fst (slash_claim_house ''ALEXIN'' '' H '' ''feyd'' 9 claimed_db)))
       = [Some HARKONNEN]
   \<and> list_all (\<lambda>h. alliance h \<in> {None, Some ATREIDES, Some HARKONNEN})
       (houses (fst (slash_claim_house ''ALEXIN'' '' H '' ''feyd'' 9 claimed_db)))
   \<and> lower (strip ''Corrino'') \<notin> set [''atreides'', ''harkonnen'', ''a'', ''h'']
   \<and> slash_claim_house ''ALEXIN'' ''Corrino'' ''feyd'' 9 claimed_db
       = (claimed_db, Invalid_faction)"
proof -
  have v: "list_all (\<lambda>h. alliance h \<in> {None, Some ATREIDES, Some HARKONNEN})
      (houses claimed_db)"
    by code_simp
  have w: "map alliance (houses (fst (slash_claim_house ''ALEXIN'' '' H '' ''feyd'' 9
      claimed_db))) = [Some HARKONNEN]"
    by code_simp
  have n: "lower (strip ''Corrino'') \<notin> set [''atreides'', ''harkonnen'', ''a'', ''h'']"
    by code_simp
  show ?thesis
    using v w n
      alliance_vocabulary_preserved [OF v, where house' = "''ALEXIN''" and faction = "'' H ''"
        and user = "''feyd''" and now = 9]
      alliance_vocabulary_preserved [OF v, where house' = "''ALEXIN''"
        and faction = "''Corrino''" and user = "''feyd''" and now = 9]
    by blast
qed

section \<open>Adding a point of interest\<close>

text \<open>The four forms write their own table and nothing else: the survey status of every
  sector is what it was.\<close>

lemma forms_leave_sectors:
  "deep_desert_sectors (fst (AddGuildBaseModal_on_submit sector g b a c n user now db))
     = deep_desert_sectors db"
  "deep_desert_sectors (fst (AddSpiceModal_on_submit sector sz y c n user now db))
     = deep_desert_sectors db"
  "deep_desert_sectors (fst (AddLandsraadModal_on_submit sector p c tr df n user now db))
     = deep_desert_sectors db"
  "deep_desert_sectors (fst (AddResourceModal_on_submit sector r cn c n user now db))
     = deep_desert_sectors db"
  by (simp_all add: AddGuildBaseModal_on_submit_def AddSpiceModal_on_submit_def
      AddLandsraadModal_on_submit_def AddResourceModal_on_submit_def Let_def
      split: sum.splits)

text \<open>\<^verbatim>\<open>/quickadd\<close> with the type landsraad names a column the table does not have.\<close>

lemma quickadd_landsraad_raises:
  "quickadd_insert ''landsraad'' sector nm user now db = Inl OperationalError"
  by (simp add: quickadd_insert_def sql_insert_def landsraad_points_columns_def)

text \<open>The update of \<^verbatim>\<open>/quickadd\<close> moves an unsurveyed sector to partial and leaves any
  other status.\<close>

lemma advance_survey_status_ratchet:
  assumes "sector \<in> set (map sector_id (deep_desert_sectors db))"
  shows "sector_status sector (advance_survey_status sector db)
     = (if sector_status sector db = ''unsurveyed'' then ''partial''
        else sector_status sector db)"
proof -
  have "sector \<in> set (map sector_id ss) \<Longrightarrow>
      sector_status sector (db\<lparr>deep_desert_sectors :=
          map (\<lambda>s. if sector_id s = sector
                   then s\<lparr>survey_status :=
                            (if survey_status s = ''unsurveyed'' then ''partial''
                             else survey_status s)\<rparr>
                   else s) ss\<rparr>)
      = (if sector_status sector (db\<lparr>deep_desert_sectors := ss\<rparr>) = ''unsurveyed''
         then ''partial'' else sector_status sector (db\<lparr>deep_desert_sectors := ss\<rparr>))" for ss
    by (induction ss) (auto simp: sector_status_def)
  from this [of "deep_desert_sectors db"] assms show ?thesis
    by (simp add: advance_survey_status_def)
qed

text \<open>\<^verbatim>\<open>/quickadd\<close> with one of the types base, spice and resource, on a sector of the
  table: the sector moves from unsurveyed to partial, and keeps any other status.\<close>

lemma quickadd_insert_succeeds:
  assumes "location_type \<in> set [''base'', ''spice'', ''resource'']"
  shows "\<exists>db'. quickadd_insert location_type sector nm user now db = Inr db'
    \<and> deep_desert_sectors db' = deep_desert_sectors db"
  using assms
  by (auto simp: quickadd_insert_def sql_insert_def guild_bases_columns_def
      spice_locations_columns_def resource_locations_columns_def Let_def)

lemma quickadd_advances_status:
  assumes "valid_sector_id (upper sector)"
    and "lower location_type \<in> set [''base'', ''spice'', ''resource'']"
    and "upper sector \<in> set (map sector_id (deep_desert_sectors db))"
  shows "sector_status (upper sector)
      (fst (slash_quickadd sector location_type nm user now db))
     = (if sector_status (upper sector) db = ''unsurveyed'' then ''partial''
        else sector_status (upper sector) db)"
proof -
  obtain db' where db':
    "quickadd_insert (lower location_type) (upper sector) nm user now db = Inr db'"
    "deep_desert_sectors db' = deep_desert_sectors db"
    using quickadd_insert_succeeds [OF assms(2)] by blast
  have same: "sector_status (upper sector) db' = sector_status (upper sector) db"
    using db'(2) by (simp add: sector_status_def)
  have "fst (slash_quickadd sector location_type nm user now db)
      = advance_survey_status (upper sector) db'"
    using assms(1,2) db'(1) by (auto simp: slash_quickadd_def Let_def)
  then show ?thesis
    using advance_survey_status_ratchet [of "upper sector" db'] assms(3) db'(2) same
    by simp
qed

text \<open>
  C9. On a database whose sector A1 is unsurveyed, the guild-base form adds the base and
  leaves A1 unsurveyed, and \<^verbatim>\<open>/quickadd\<close> with the type landsraad raises
  \<^verbatim>\<open>OperationalError\<close> and writes nothing, where \<^verbatim>\<open>/quickadd\<close> with the type base moves
  A1 to partial.
\<close>

theorem add_form_leaves_sector_unsurveyed:
  "sector_status ''A1'' example_db = ''unsurveyed''
   \<and> snd (AddGuildBaseModal_on_submit ''A1'' ''Cold Breakfast Militia'' ''Main'' [] ''7'' []
        ''paul'' 5 example_db)
       = Location_added ''base'' ''Cold Breakfast Militia'' ''A1''
   \<and> length (poi_rows (guild_bases (fst (AddGuildBaseModal_on_submit ''A1''
        ''Cold Breakfast Militia'' ''Main'' [] ''7'' [] ''paul'' 5 example_db)))) = 1
   \<and> sector_status ''A1''
        (fst (AddGuildBaseModal_on_submit ''A1'' ''Cold Breakfast Militia'' ''Main'' [] ''7''
           [] ''paul'' 5 example_db))
       = ''unsurveyed''
   \<and> slash_quickadd ''a1'' ''Landsraad'' ''Wallach'' ''paul'' 5 example_db
       = (example_db, Location_raised OperationalError)
   \<and> sector_status ''A1'' (fst (slash_quickadd ''a1'' ''Base'' ''Fort'' ''paul'' 5 example_db))
       = ''partial''"
  by code_simp

section \<open>The next occurrence of a weekday and a time\<close>

lemma weekday_range: "0 \<le> weekday d \<and> weekday d < 7"
  by (simp add: weekday_def)

text \<open>
  C8. Let the clock read a day whose ordinal leaves room for eight more days. For every
  target weekday 0 to 6 and time of day, \<^verbatim>\<open>get_next_weekday\<close> returns this week's
  occurrence of the target (the day of the target weekday in the week of \<open>now\<close>, at the
  target time) when \<open>now\<close> is before it, and that occurrence plus 7 days when \<open>now\<close> is at
  or after it. So on a Wednesday at 10:00 the storm starts 5 days ahead at 17:00, and on a
  Monday at 17:00:00 exactly it starts 7 days ahead. \<^verbatim>\<open>calculate_schedule_events\<close>
  returns; its storm start is that next Monday 17:00, its storm end is the start plus 10
  hours (the next day at 3:00), and its new term is the storm end.
\<close>

theorem get_next_weekday_rolls_forward:
  assumes "1 \<le> ordinal now" and "ordinal now + 8 \<le> max_ordinal"
    and "1 \<le> ordinal now2" and "ordinal now2 + 8 \<le> max_ordinal"
    and "0 \<le> tw" and "tw < 7" and "0 \<le> th" and "th < 24" and "0 \<le> tm" and "tm < 60"
  shows
    "get_next_weekday now tw th tm
       = Inr (let this_week = now\<lparr>ordinal := ordinal now + (tw - weekday now), hour := th,
                                  minute := tm, second := 0, microsecond := 0\<rparr>
              in if datetime_ge now this_week
                 then this_week\<lparr>ordinal := ordinal this_week + 7\<rparr>
                 else this_week)
     \<and> (weekday now = 2 \<and> hour now = 10 \<and> minute now = 0 \<longrightarrow>
          get_next_weekday now 0 17 0
            = Inr (now\<lparr>ordinal := ordinal now + 5, hour := 17, minute := 0, second := 0,
                       microsecond := 0\<rparr>))
     \<and> (weekday now = 0 \<and> hour now = 17 \<and> minute now = 0 \<and> second now = 0
          \<and> microsecond now = 0 \<longrightarrow>
          get_next_weekday now 0 17 0 = Inr (now\<lparr>ordinal := ordinal now + 7\<rparr>))
     \<and> (\<exists>ev. calculate_schedule_events now now2 = Inr ev
            \<and> get_next_weekday now 0 17 0 = Inr (coriolis_start ev)
            \<and> add_hours (coriolis_start ev) 10 = Inr (coriolis_end ev)
            \<and> coriolis_end ev
                = (coriolis_start ev)\<lparr>ordinal := ordinal (coriolis_start ev) + 1, hour := 3\<rparr>
            \<and> landsraad_new_term ev = coriolis_end ev)"
proof -
  have general: "get_next_weekday n w h m
       = Inr (let this_week = n\<lparr>ordinal := ordinal n + (w - weekday n), hour := h,
                                  minute := m, second := 0, microsecond := 0\<rparr>
              in if datetime_ge n this_week
                 then this_week\<lparr>ordinal := ordinal this_week + 7\<rparr>
                 else this_week)"
    if "1 \<le> ordinal n" "ordinal n + 8 \<le> max_ordinal" "0 \<le> w" "w < 7"
      "0 \<le> h" "h < 24" "0 \<le> m" "m < 60" for n w h m
  proof -
    have wd: "0 \<le> weekday n" "weekday n < 7"
      using weekday_range [of n] by simp_all
    consider "w < weekday n" | "w = weekday n" | "weekday n < w"
      by linarith
    then show ?thesis
    proof cases
      case 1
      with that wd show ?thesis
        by (simp add: get_next_weekday_def target_after_def add_days_def replace_time_def
            datetime_ge_def Let_def)
    next
      case 2
      with that wd show ?thesis
        by (simp add: get_next_weekday_def target_after_def add_days_def replace_time_def
            datetime_ge_def Let_def)
    next
      case 3
      with that wd show ?thesis
        by (simp add: get_next_weekday_def target_after_def add_days_def replace_time_def
            datetime_ge_def Let_def)
    qed
  qed
  have bounds: "\<exists>r. get_next_weekday n w h m = Inr r \<and> hour r = h
      \<and> ordinal n \<le> ordinal r \<and> ordinal r \<le> ordinal n + 7"
    if "1 \<le> ordinal n" "ordinal n + 8 \<le> max_ordinal" "0 \<le> w" "w < 7"
      "0 \<le> h" "h < 24" "0 \<le> m" "m < 60" for n w h m
    using general [OF that] that weekday_range [of n]
    by (auto simp: Let_def datetime_ge_def)
  have storm: "get_next_weekday now 0 17 0
       = Inr (let this_week = now\<lparr>ordinal := ordinal now + (0 - weekday now), hour := 17,
                                  minute := 0, second := 0, microsecond := 0\<rparr>
              in if datetime_ge now this_week
                 then this_week\<lparr>ordinal := ordinal this_week + 7\<rparr>
                 else this_week)"
    using general [OF assms(1,2), of 0 17 0] by simp
  have c1: "weekday now = 2 \<and> hour now = 10 \<and> minute now = 0 \<longrightarrow>
      get_next_weekday now 0 17 0
        = Inr (now\<lparr>ordinal := ordinal now + 5, hour := 17, minute := 0, second := 0,
                   microsecond := 0\<rparr>)"
    using storm by (simp add: datetime_ge_def Let_def)
  have c2: "weekday now = 0 \<and> hour now = 17 \<and> minute now = 0 \<and> second now = 0
      \<and> microsecond now = 0 \<longrightarrow>
      get_next_weekday now 0 17 0 = Inr (now\<lparr>ordinal := ordinal now + 7\<rparr>)"
    using storm by (auto simp: datetime_ge_def Let_def)
  obtain s where s: "get_next_weekday now 0 17 0 = Inr s" "hour s = 17"
    "ordinal now \<le> ordinal s" "ordinal s \<le> ordinal now + 7"
    using bounds [OF assms(1,2), of 0 17 0] by auto
  obtain v where v: "get_next_weekday now2 5 18 0 = Inr v" "hour v = 18"
    "ordinal now2 \<le> ordinal v" "ordinal v \<le> ordinal now2 + 7"
    using bounds [OF assms(3,4), of 5 18 0] by auto
  have c3: "\<exists>ev. calculate_schedule_events now now2 = Inr ev
            \<and> get_next_weekday now 0 17 0 = Inr (coriolis_start ev)
            \<and> add_hours (coriolis_start ev) 10 = Inr (coriolis_end ev)
            \<and> coriolis_end ev
                = (coriolis_start ev)\<lparr>ordinal := ordinal (coriolis_start ev) + 1, hour := 3\<rparr>
            \<and> landsraad_new_term ev = coriolis_end ev"
    using assms(1-4) s v by (simp add: calculate_schedule_events_def add_hours_def Let_def)
  show ?thesis
    using general [OF assms(1,2,5-10)] c1 c2 c3 by blast
qed

theorem get_next_weekday_rolls_forward_witness:
  "weekday wednesday_morning = 2
   \<and> get_next_weekday wednesday_morning 0 17 0
       = Inr \<lparr>ordinal = 739929, hour = 17, minute = 0, second = 0, microsecond = 0\<rparr>
   \<and> weekday monday_five_pm = 0
   \<and> get_next_weekday monday_five_pm 0 17 0
       = Inr \<lparr>ordinal = 739929, hour = 17, minute = 0, second = 0, microsecond = 0\<rparr>
   \<and> (\<exists>ev. calculate_schedule_events wednesday_morning wednesday_morning = Inr ev
          \<and> coriolis_start ev
              = \<lparr>ordinal = 739929, hour = 17, minute = 0, second = 0, microsecond = 0\<rparr>
          \<and> coriolis_end ev
              = \<lparr>ordinal = 739930, hour = 3, minute = 0, second = 0, microsecond = 0\<rparr>
          \<and> landsraad_new_term ev = coriolis_end ev)"
proof -
  have r: "1 \<le> ordinal wednesday_morning" "ordinal wednesday_morning + 8 \<le> max_ordinal"
    "1 \<le> ordinal monday_five_pm" "ordinal monday_five_pm + 8 \<le> max_ordinal"
    by (simp_all add: wednesday_morning_def monday_five_pm_def max_ordinal_def)
  have t: "(0::int) \<le> 0" "(0::int) < 7" "(0::int) \<le> 17" "(17::int) < 24" "(0::int) < 60"
    by simp_all
  have w: "weekday wednesday_morning = 2 \<and> hour wednesday_morning = 10
      \<and> minute wednesday_morning = 0"
    by (simp add: weekday_def wednesday_morning_def)
  have m: "weekday monday_five_pm = 0 \<and> hour monday_five_pm = 17 \<and> minute monday_five_pm = 0
      \<and> second monday_five_pm = 0 \<and> microsecond monday_five_pm = 0"
    by (simp add: weekday_def monday_five_pm_def)
  have a: "get_next_weekday wednesday_morning 0 17 0
      = Inr (wednesday_morning\<lparr>ordinal := ordinal wednesday_morning + 5, hour := 17,
               minute := 0, second := 0, microsecond := 0\<rparr>)"
    using w get_next_weekday_rolls_forward [OF r(1,2) r(1,2) t(1,2,3,4) t(1,5)] by blast
  have b: "get_next_weekday monday_five_pm 0 17 0
      = Inr (monday_five_pm\<lparr>ordinal := ordinal monday_five_pm + 7\<rparr>)"
    using m get_next_weekday_rolls_forward [OF r(3,4) r(3,4) t(1,2,3,4) t(1,5)] by blast
  obtain ev where ev: "calculate_schedule_events wednesday_morning wednesday_morning = Inr ev"
    "get_next_weekday wednesday_morning 0 17 0 = Inr (coriolis_start ev)"
    "coriolis_end ev
       = (coriolis_start ev)\<lparr>ordinal := ordinal (coriolis_start ev) + 1, hour := 3\<rparr>"
    "landsraad_new_term ev = coriolis_end ev"
    using get_next_weekday_rolls_forward [OF r(1,2) r(1,2) t(1,2,3,4) t(1,5)] by blast
  from a ev(2) have s: "coriolis_start ev
      = \<lparr>ordinal = 739929, hour = 17, minute = 0, second = 0, microsecond = 0\<rparr>"
    by (simp add: wednesday_morning_def)
  show ?thesis
    using w m a b ev(1,3,4) s by (simp add: wednesday_morning_def monday_five_pm_def)
qed

end
